theory Spec2Isabelle
  imports Complex_Main
begin

section \<open>Python strings\<close>

text \<open>
  A Python \<open>str\<close> is modelled as a \<open>string\<close>; one \<open>char\<close> stands for one code point
  (the model covers the code points below 256).  \<open>str.strip()\<close> without argument removes
  the characters for which \<open>str.isspace\<close> holds from both ends.
\<close>

definition whitespace :: "char list" where
  "whitespace =
     [CHR 0x09, CHR 0x0A, CHR 0x0B, CHR 0x0C, CHR 0x0D,
      CHR 0x1C, CHR 0x1D, CHR 0x1E, CHR 0x1F, CHR 0x20, CHR 0x85, CHR 0xA0]"

definition isspace :: "char \<Rightarrow> bool" where
  "isspace c = (c \<in> set whitespace)"

definition lstrip :: "string \<Rightarrow> string" where
  "lstrip s = dropWhile isspace s"

definition rstrip :: "string \<Rightarrow> string" where
  "rstrip s = rev (dropWhile isspace (rev s))"

definition strip :: "string \<Rightarrow> string" where
  "strip s = rstrip (lstrip s)"

definition startswith :: "string \<Rightarrow> string \<Rightarrow> bool" where
  "startswith s p = (take (length p) s = p)"

text \<open>
  \<open>s.replace(old, "")\<close>: every non-overlapping occurrence of \<open>old\<close>, found from the left,
  is removed.  With \<open>old = ""\<close> Python inserts the (empty) replacement between the
  characters, which gives \<open>s\<close> back.
\<close>

function replace_by_empty :: "string \<Rightarrow> string \<Rightarrow> string" where
  "replace_by_empty s old =
     (if old = [] \<or> s = [] then s
      else if startswith s old then replace_by_empty (drop (length old) s) old
      else hd s # replace_by_empty (tl s) old)"
  by pat_completeness auto
termination
  by (relation "measure (\<lambda>(s, old). length s)") auto

declare replace_by_empty.simps [simp del]

text \<open>\<open>any(p in buffer for p in [".", "!", "?"])\<close>\<close>

definition has_terminator :: "string \<Rightarrow> bool" where
  "has_terminator buffer = list_ex (\<lambda>p. p \<in> set buffer) [CHR ''.'', CHR ''!'', CHR ''?'']"

section \<open>Exceptions, effects and the external services\<close>

text \<open>
  Only two kinds of exception are told apart by the handlers of the program:
  \<open>asyncio.TimeoutError\<close> and any other \<open>Exception\<close>, of which \<open>str(e)\<close> is used.
  An awaited coroutine returns, raises, or does not finish before its deadline.
\<close>

datatype exn = TimeoutError | Exception string

datatype 'a outcome = Returns 'a | Raises exn | Hangs

text \<open>\<open>asyncio.wait_for(coro, timeout)\<close>: a coroutine that is still running at the deadline
  is cancelled and \<open>TimeoutError\<close> is raised in the caller.\<close>

definition wait_for :: "'a outcome \<Rightarrow> exn + 'a" where
  "wait_for r = (case r of Returns x \<Rightarrow> Inr x | Raises e \<Rightarrow> Inl e | Hangs \<Rightarrow> Inl TimeoutError)"

type_synonym path = string

text \<open>The calls that leave the process, in the order in which they are made.\<close>

datatype event =
    EvMkTemp path
  | EvRecord int
  | EvWrite path
  | EvTranscribe path
  | EvRemove path
  | EvGenerate string
  | EvCallback string
  | EvSleep real
  | EvSynthesize string path
  | EvPlay path
  | EvScheduleCleanup path real
  | EvPoll real
  | EvTaskDone

record world =
  files :: "path set"
  temp_files :: "path list"
  trace :: "event list"

definition emit :: "event \<Rightarrow> world \<Rightarrow> world" where
  "emit e w = w\<lparr>trace := trace w @ [e]\<rparr>"

text \<open>
  The language-model service answers one \<open>generate(prompt, stream=True)\<close> call with a
  sequence of token fragments (the \<open>"response"\<close> field of each chunk, \<open>""\<close> when the field
  is missing), after which the stream ends, raises, or stalls past the deadline.
\<close>

datatype stream_end = EndOfStream | StreamRaises exn | StreamHangs

type_synonym reply = "string list \<times> stream_end"

section \<open>assistant/gemma_optimized.py\<close>

definition max_retries :: nat where
  "max_retries = 3"

definition retry_delay :: real where
  "retry_delay = 1.0"

definition max_context_length :: nat where
  "max_context_length = 4000"

definition prompt_head :: string where
  "prompt_head = ''You are a helpful study assistant. Use the following textbook context to answer the question concisely and accurately.\<newline>\<newline>Context:\<newline>''"

definition prompt_mid :: string where
  "prompt_mid = ''\<newline>\<newline>Question:\<newline>''"

definition prompt_tail :: string where
  "prompt_tail = ''\<newline>\<newline>Answer (be concise and direct):''"

text \<open>\<open>GemmaClient._build_prompt\<close>.  The pipeline may pass \<open>None\<close> as context
  (no PDF and no context given), on which \<open>len\<close> raises \<open>TypeError\<close>.\<close>

definition build_prompt :: "string \<Rightarrow> string option \<Rightarrow> exn + string" where
  "build_prompt question context =
     (case context of
        None \<Rightarrow> Inl (Exception ''object of type 'NoneType' has no len()'')
      | Some c \<Rightarrow>
          (let c' = (if length c > max_context_length
                     then take max_context_length c @ ''...'' else c)
           in Inr (prompt_head @ c' @ prompt_mid @ question @ prompt_tail)))"

text \<open>
  The \<open>async for\<close> loop of \<open>GemmaClient._generate_response\<close>.  The stream callback is
  \<open>None\<close> or a function that returns or raises; each call of it is recorded.
\<close>

type_synonym callback = "(string \<Rightarrow> exn option) option"

fun stream_loop ::
  "callback \<Rightarrow> string list \<Rightarrow> string \<Rightarrow> string \<Rightarrow> world \<Rightarrow> (string \<times> string) outcome \<times> world"
where
  "stream_loop cb [] full_response buffer w = (Returns (full_response, buffer), w)"
| "stream_loop cb (token # rest) full_response buffer w =
     (if token = [] then stream_loop cb rest full_response buffer w
      else
        let full_response' = full_response @ token;
            buffer' = buffer @ token
        in (case cb of
              None \<Rightarrow> stream_loop cb rest full_response' buffer' w
            | Some f \<Rightarrow>
                if has_terminator buffer' then
                  (let sentence = strip buffer' in
                   if sentence \<noteq> [] then
                     (case f sentence of
                        Some e \<Rightarrow> (Raises e, emit (EvCallback sentence) w)
                      | None \<Rightarrow>
                          stream_loop cb rest full_response' [] (emit (EvCallback sentence) w))
                   else stream_loop cb rest full_response' [] w)
                else stream_loop cb rest full_response' buffer' w))"

text \<open>\<open>GemmaClient._generate_response\<close>: its \<open>except Exception\<close> logs and re-raises.\<close>

definition generate_response ::
  "(string \<Rightarrow> reply) \<Rightarrow> string \<Rightarrow> callback \<Rightarrow> world \<Rightarrow> string outcome \<times> world"
where
  "generate_response service prompt cb w =
     (let (tokens, ending) = service prompt;
          w1 = emit (EvGenerate prompt) w
      in case stream_loop cb tokens [] [] w1 of
           (Raises e, w2) \<Rightarrow> (Raises e, w2)
         | (Hangs, w2) \<Rightarrow> (Hangs, w2)
         | (Returns (full_response, buffer), w2) \<Rightarrow>
             (case ending of
                StreamRaises e \<Rightarrow> (Raises e, w2)
              | StreamHangs \<Rightarrow> (Hangs, w2)
              | EndOfStream \<Rightarrow>
                  (case cb of
                     None \<Rightarrow> (Returns (strip full_response), w2)
                   | Some f \<Rightarrow>
                       if strip buffer \<noteq> [] then
                         (case f (strip buffer) of
                            Some e \<Rightarrow> (Raises e, emit (EvCallback (strip buffer)) w2)
                          | None \<Rightarrow>
                              (Returns (strip full_response),
                               emit (EvCallback (strip buffer)) w2))
                       else (Returns (strip full_response), w2))))"

definition timeout_message :: string where
  "timeout_message = ''I'm sorry, the request timed out. Please try again.''"

definition error_message :: "string \<Rightarrow> string" where
  "error_message m = ''I'm sorry, I encountered an error: '' @ m"

text \<open>
  The retry loop of \<open>GemmaClient.ask_question_async\<close>, over \<open>range(self.max_retries)\<close>.
  \<open>service prompt attempt\<close> is what the service does at the call made by that attempt.
\<close>

fun ask_attempts ::
  "(string \<Rightarrow> nat \<Rightarrow> reply) \<Rightarrow> string \<Rightarrow> callback \<Rightarrow> nat list \<Rightarrow> world \<Rightarrow> string \<times> world"
where
  "ask_attempts service prompt cb [] w = ([], w)"
| "ask_attempts service prompt cb (attempt # rest) w =
     (let (r, w1) = generate_response (\<lambda>p. service p attempt) prompt cb w
      in case wait_for r of
           Inr response \<Rightarrow>
             if response \<noteq> [] then (response, w1)
             else ask_attempts service prompt cb rest w1
         | Inl TimeoutError \<Rightarrow>
             if attempt < max_retries - 1
             then ask_attempts service prompt cb rest (emit (EvSleep retry_delay) w1)
             else (timeout_message, w1)
         | Inl (Exception m) \<Rightarrow>
             if attempt < max_retries - 1
             then ask_attempts service prompt cb rest (emit (EvSleep retry_delay) w1)
             else (error_message m, w1))"

definition ask_question_async ::
  "(string \<Rightarrow> nat \<Rightarrow> reply) \<Rightarrow> string \<Rightarrow> string option \<Rightarrow> callback \<Rightarrow> world
     \<Rightarrow> (exn + string) \<times> world"
where
  "ask_question_async service question context cb w =
     (case build_prompt question context of
        Inl e \<Rightarrow> (Inl e, w)
      | Inr prompt \<Rightarrow>
          (let (answer, w') = ask_attempts service prompt cb [0..<max_retries] w
           in (Inr answer, w')))"

section \<open>assistant/gemma.py\<close>

definition legacy_prompt :: "string \<Rightarrow> string \<Rightarrow> string" where
  "legacy_prompt question context =
     ''You are a helpful study assistant. Use the following textbook context to answer the question concisely.\<newline>\<newline>Context:\<newline>''
     @ context @ ''\<newline>\<newline>Question:\<newline>'' @ question @ ''\<newline>\<newline>Answer:''"

text \<open>The \<open>for\<close> loop of the legacy \<open>ask_gemma\<close>; each call of \<open>speak_streamed_text\<close> is
  recorded as a callback event.\<close>

fun legacy_loop :: "string list \<Rightarrow> string \<Rightarrow> string \<Rightarrow> world \<Rightarrow> string \<times> world" where
  "legacy_loop [] buffer spoken w = (spoken, w)"
| "legacy_loop (token # rest) buffer spoken w =
     (let buffer' = buffer @ token in
      if has_terminator buffer' then
        (let new_chunk = replace_by_empty (strip buffer') spoken
         in legacy_loop rest [] (spoken @ new_chunk) (emit (EvCallback new_chunk) w))
      else legacy_loop rest buffer' spoken w)"

text \<open>The legacy \<open>ask_gemma\<close> has no deadline, and answers \<open>""\<close> to any exception.\<close>

definition ask_gemma :: "(string \<Rightarrow> reply) \<Rightarrow> string \<Rightarrow> string \<Rightarrow> world \<Rightarrow> string outcome \<times> world" where
  "ask_gemma service question context w =
     (let prompt = legacy_prompt question context;
          (tokens, ending) = service prompt;
          (spoken, w') = legacy_loop tokens [] [] (emit (EvGenerate prompt) w)
      in case ending of
           EndOfStream \<Rightarrow> (Returns spoken, w')
         | StreamRaises e \<Rightarrow> (Returns [], w')
         | StreamHangs \<Rightarrow> (Hangs, w'))"

text \<open>The arguments of the callback calls, in order.\<close>

fun callback_arg :: "event \<Rightarrow> string list" where
  "callback_arg (EvCallback s) = [s]"
| "callback_arg _ = []"

definition chunks :: "world \<Rightarrow> string list" where
  "chunks w = concat (map callback_arg (trace w))"

section \<open>The external libraries\<close>

text \<open>
  What the libraries and the operating system do is a parameter of the model:
  \<^item> \<open>tempdir\<close>: \<open>tempfile.gettempdir()\<close>;
  \<^item> \<open>named_temporary_file\<close>: \<open>tempfile.NamedTemporaryFile(delete=False, suffix=...)\<close>,
    given the suffix and the files that exist; it raises or creates a file of that name;
  \<^item> \<open>sd_rec\<close>: \<open>sd.rec\<close> and \<open>sd.wait\<close> for a duration; \<open>Some e\<close> when they raise;
  \<^item> \<open>wav_write\<close>: \<open>scipy.io.wavfile.write\<close>;
  \<^item> \<open>whisper_transcribe\<close>: \<open>whisper.load_model\<close> and \<open>model.transcribe\<close>; the result is a
    dictionary, here an association list;
  \<^item> \<open>os_remove\<close>: \<open>os.remove\<close>;
  \<^item> \<open>llm\<close>: the language-model service, by prompt and attempt;
  \<^item> \<open>edge_tts\<close>: \<open>edge_tts.Communicate(text).stream()\<close> written to the audio file;
  \<^item> \<open>afplay\<close>: \<open>os.system("afplay ...")\<close>, the exit status.
  \<open>loop.run_in_executor\<close> hands the result of the worker through.
\<close>

record env =
  tempdir :: string
  named_temporary_file :: "string \<Rightarrow> path set \<Rightarrow> exn + path"
  sd_rec :: "int \<Rightarrow> exn option"
  wav_write :: "path \<Rightarrow> exn option"
  whisper_transcribe :: "path \<Rightarrow> exn + (string \<times> string) list"
  os_remove :: "path \<Rightarrow> exn option"
  llm :: "string \<Rightarrow> nat \<Rightarrow> reply"
  edge_tts :: "string \<Rightarrow> exn option"
  afplay :: "path \<Rightarrow> exn + int"

text \<open>\<open>os.remove(p)\<close>: the attempt is recorded; the file is gone when it does not raise.\<close>

definition remove_file :: "env \<Rightarrow> path \<Rightarrow> world \<Rightarrow> exn option \<times> world" where
  "remove_file env p w =
     (case os_remove env p of
        Some e \<Rightarrow> (Some e, emit (EvRemove p) w)
      | None \<Rightarrow> (None, emit (EvRemove p) (w\<lparr>files := files w - {p}\<rparr>)))"

section \<open>assistant/audio_optimized.py\<close>

text \<open>\<open>AudioProcessor._record_audio_sync\<close>: \<open>True\<close> for audio data, \<open>False\<close> for \<open>None\<close>.\<close>

definition record_audio_sync :: "env \<Rightarrow> int \<Rightarrow> world \<Rightarrow> bool \<times> world" where
  "record_audio_sync env duration w =
     (case sd_rec env duration of
        Some e \<Rightarrow> (False, emit (EvRecord duration) w)
      | None \<Rightarrow> (True, emit (EvRecord duration) w))"

text \<open>\<open>AudioProcessor.record_audio_async\<close>.  The temporary file is created before the
  \<open>try\<close>; the \<open>os.remove\<close> of the handler is not guarded.\<close>

definition record_audio_async ::
  "env \<Rightarrow> int \<Rightarrow> path option \<Rightarrow> world \<Rightarrow> (exn + path option) \<times> world"
where
  "record_audio_async env duration filename w =
     (case (case filename of
              Some f \<Rightarrow> Inr (f, w)
            | None \<Rightarrow>
                (case named_temporary_file env ''.wav'' (files w) of
                   Inl e \<Rightarrow> Inl e
                 | Inr f \<Rightarrow> Inr (f, emit (EvMkTemp f) (w\<lparr>files := insert f (files w)\<rparr>)))) of
        Inl e \<Rightarrow> (Inl e, w)
      | Inr (f, w1) \<Rightarrow>
          (case record_audio_sync env duration w1 of
             (False, w2) \<Rightarrow> (Inr None, w2)
           | (True, w2) \<Rightarrow>
               (case wav_write env f of
                  None \<Rightarrow> (Inr (Some f), emit (EvWrite f) (w2\<lparr>files := insert f (files w2)\<rparr>))
                | Some e \<Rightarrow>
                    (let w3 = emit (EvWrite f) w2 in
                     if f \<in> files w3 then
                       (case remove_file env f w3 of
                          (Some e', w4) \<Rightarrow> (Inl e', w4)
                        | (None, w4) \<Rightarrow> (Inr None, w4))
                     else (Inr None, w3)))))"

text \<open>\<open>AudioProcessor._transcribe_sync\<close>: \<open>None\<close> when the library raises.\<close>

definition transcribe_sync ::
  "env \<Rightarrow> path \<Rightarrow> world \<Rightarrow> (string \<times> string) list option \<times> world"
where
  "transcribe_sync env audio_file w =
     (case whisper_transcribe env audio_file of
        Inl e \<Rightarrow> (None, emit (EvTranscribe audio_file) w)
      | Inr result \<Rightarrow> (Some result, emit (EvTranscribe audio_file) w))"

text \<open>\<open>AudioProcessor.transcribe_audio_async\<close>: the \<open>try\<close> body, then the \<open>finally\<close>
  block, whose own \<open>except\<close> swallows a failing \<open>os.remove\<close>.\<close>

definition transcribe_audio_async :: "env \<Rightarrow> path \<Rightarrow> world \<Rightarrow> string \<times> world" where
  "transcribe_audio_async env audio_file w =
     (let (transcription, w1) =
            (if audio_file \<notin> files w then ([], w)
             else
               (case transcribe_sync env audio_file w of
                  (Some result, w') \<Rightarrow>
                    if result \<noteq> [] then
                      (strip (case map_of result ''text'' of Some t \<Rightarrow> t | None \<Rightarrow> []), w')
                    else ([], w')
                | (None, w') \<Rightarrow> ([], w')));
          w2 = (if audio_file \<in> files w1 \<and> startswith audio_file (tempdir env)
                then snd (remove_file env audio_file w1) else w1)
      in (transcription, w2))"

section \<open>assistant/speak_optimized.py\<close>

text \<open>\<open>SpeechSynthesizer._generate_audio_async\<close>\<close>

definition generate_audio_async :: "env \<Rightarrow> string \<Rightarrow> world \<Rightarrow> path option \<times> world" where
  "generate_audio_async env text w =
     (case named_temporary_file env ''.mp3'' (files w) of
        Inl e \<Rightarrow> (None, w)
      | Inr p \<Rightarrow>
          (let w1 = emit (EvMkTemp p)
                      (w\<lparr>files := insert p (files w), temp_files := temp_files w @ [p]\<rparr>);
               w2 = emit (EvSynthesize text p) w1
           in case edge_tts env text of
                Some e \<Rightarrow> (None, w2)
              | None \<Rightarrow> (Some p, w2)))"

text \<open>\<open>SpeechSynthesizer._play_audio_async\<close> with \<open>_play_audio_sync\<close>\<close>

definition play_audio_async :: "env \<Rightarrow> path \<Rightarrow> world \<Rightarrow> bool \<times> world" where
  "play_audio_async env audio_path w =
     (if audio_path \<notin> files w then (False, w)
      else
        (case afplay env audio_path of
           Inl e \<Rightarrow> (False, emit (EvPlay audio_path) w)
         | Inr status \<Rightarrow> (status = 0, emit (EvPlay audio_path) w)))"

text \<open>\<open>SpeechSynthesizer._cleanup_temp_file\<close>\<close>

definition cleanup_temp_file :: "env \<Rightarrow> path \<Rightarrow> real \<Rightarrow> world \<Rightarrow> world" where
  "cleanup_temp_file env file_path delay w =
     (let w1 = (if delay > 0 then emit (EvSleep delay) w else w)
      in case (if file_path \<in> files w1 then remove_file env file_path w1 else (None, w1)) of
           (Some e, w2) \<Rightarrow> w2
         | (None, w2) \<Rightarrow>
             if file_path \<in> set (temp_files w2)
             then w2\<lparr>temp_files := remove1 file_path (temp_files w2)\<rparr>
             else w2)"

text \<open>\<open>SpeechSynthesizer.speak_async\<close>.  With a positive delay the cleanup is a task of
  its own (\<open>asyncio.create_task\<close>), of which the model records the creation.\<close>

definition speak_async :: "env \<Rightarrow> string \<Rightarrow> real \<Rightarrow> world \<Rightarrow> bool \<times> world" where
  "speak_async env text cleanup_delay w =
     (if text = [] \<or> strip text = [] then (False, w)
      else
        (case generate_audio_async env text w of
           (None, w1) \<Rightarrow> (False, w1)
         | (Some temp_audio_path, w1) \<Rightarrow>
             if temp_audio_path = [] then (False, w1)
             else
               (let (success, w2) = play_audio_async env temp_audio_path w1 in
                if cleanup_delay > 0
                then (success, emit (EvScheduleCleanup temp_audio_path cleanup_delay) w2)
                else (success, cleanup_temp_file env temp_audio_path 0 w2))))"

text \<open>
  \<open>SpeechSynthesizer.speak_streaming_async\<close>.  The queue is given by what each
  \<open>wait_for(text_stream.get(), timeout=1.0)\<close> yields in turn: nothing within the timeout,
  a text chunk, or the end signal \<open>None\<close>.  After the last entry nothing is ever put on the
  queue, so the loop polls forever: the result is \<open>None\<close>.
\<close>

datatype poll = PollTimeout | PollItem "string option"

definition poll_timeout :: real where
  "poll_timeout = 1.0"

fun speak_streaming_async :: "env \<Rightarrow> poll list \<Rightarrow> world \<Rightarrow> world option" where
  "speak_streaming_async env [] w = None"
| "speak_streaming_async env (PollTimeout # rest) w =
     speak_streaming_async env rest (emit (EvPoll poll_timeout) w)"
| "speak_streaming_async env (PollItem None # rest) w = Some (emit (EvPoll poll_timeout) w)"
| "speak_streaming_async env (PollItem (Some text_chunk) # rest) w =
     (let w1 = emit (EvPoll poll_timeout) w;
          w2 = (if strip text_chunk \<noteq> [] then snd (speak_async env text_chunk 1.0 w1) else w1)
      in speak_streaming_async env rest (emit EvTaskDone w2))"

section \<open>main_optimized.py\<close>

text \<open>The result dictionary; of \<open>timing\<close> the keys are kept, in the order of their entry.\<close>

record result =
  success :: bool
  question :: string
  answer :: string
  timing :: "string list"
  errors :: "string list"

text \<open>The two \<open>except\<close> clauses of \<open>process_question_async\<close>.\<close>

definition handle_exception :: "exn \<Rightarrow> result \<Rightarrow> result" where
  "handle_exception e r =
     (case e of
        TimeoutError \<Rightarrow> r\<lparr>errors := errors r @ [''Request timed out'']\<rparr>
      | Exception m \<Rightarrow> r\<lparr>errors := errors r @ [''Unexpected error: '' @ m]\<rparr>)"

text \<open>\<open>EchoLearnAssistant.process_question_async\<close>; \<open>context\<close> is \<open>self.context\<close>.\<close>

definition process_question_async ::
  "env \<Rightarrow> string option \<Rightarrow> int \<Rightarrow> world \<Rightarrow> result \<times> world"
where
  "process_question_async env context audio_duration w =
     (let r0 = \<lparr>success = False, question = [], answer = [], timing = [], errors = []\<rparr>
      in case record_audio_async env audio_duration None w of
           (Inl e, w1) \<Rightarrow> (handle_exception e r0, w1)
         | (Inr audio_file, w1) \<Rightarrow>
             (let r1 = r0\<lparr>timing := timing r0 @ [''recording'']\<rparr> in
              case audio_file of
                None \<Rightarrow> (r1\<lparr>errors := errors r1 @ [''Failed to record audio'']\<rparr>, w1)
              | Some f \<Rightarrow>
                  if f = [] then (r1\<lparr>errors := errors r1 @ [''Failed to record audio'']\<rparr>, w1)
                  else
                    (let (q, w2) = transcribe_audio_async env f w1;
                         r2 = r1\<lparr>timing := timing r1 @ [''transcription''], question := q\<rparr>
                     in
                       if q = [] \<or> length (strip q) < 3
                       then (r2\<lparr>errors := errors r2 @ [''No valid question transcribed'']\<rparr>, w2)
                       else
                         (case ask_question_async (llm env) q context None w2 of
                            (Inl e, w3) \<Rightarrow> (handle_exception e r2, w3)
                          | (Inr a, w3) \<Rightarrow>
                              (let r3 = r2\<lparr>timing := timing r2 @ [''gemma''], answer := a\<rparr> in
                               if a = []
                               then (r3\<lparr>errors := errors r3 @ [''No answer received from Gemma'']\<rparr>, w3)
                               else
                                 (let (spoken, w4) = speak_async env a 2.0 w3
                                  in (r3\<lparr>timing := timing r3 @ [''speech'', ''total''],
                                         success := True\<rparr>, w4)))))))"

section \<open>Reading the event trace\<close>

text \<open>The arguments of the service calls, removals and synthesis calls, in order, and the
  calls of the language-model service together with the sleeps between them.\<close>

fun generate_arg :: "event \<Rightarrow> string list" where
  "generate_arg (EvGenerate p) = [p]"
| "generate_arg _ = []"

definition generations :: "world \<Rightarrow> string list" where
  "generations w = concat (map generate_arg (trace w))"

fun remove_arg :: "event \<Rightarrow> path list" where
  "remove_arg (EvRemove p) = [p]"
| "remove_arg _ = []"

definition removals :: "world \<Rightarrow> path list" where
  "removals w = concat (map remove_arg (trace w))"

fun synthesize_arg :: "event \<Rightarrow> string list" where
  "synthesize_arg (EvSynthesize t p) = [t]"
| "synthesize_arg _ = []"

definition synthesized :: "world \<Rightarrow> string list" where
  "synthesized w = concat (map synthesize_arg (trace w))"

fun service_event :: "event \<Rightarrow> bool" where
  "service_event (EvGenerate p) = True"
| "service_event (EvSleep d) = True"
| "service_event _ = False"

definition service_calls :: "world \<Rightarrow> event list" where
  "service_calls w = filter service_event (trace w)"

text \<open>
  The shape of the events of \<open>speak_streaming_async\<close> between two polls of the queue.
  Every poll waits for one second; a poll that times out is a block of its own.  The
  block of a poll that yields the chunk \<open>t\<close> ends with \<open>task_done\<close> and is one of three:
  nothing is spoken (the chunk is blank, or no audio file could be created); the audio
  file \<open>p\<close> is created and the synthesis of \<open>t\<close> into \<open>p\<close> is started but fails; or
  the file \<open>p\<close> is created, \<open>t\<close> is synthesized into \<open>p\<close>, \<open>p\<close> is played (the call
  returns when the playback has ended) and the cleanup of \<open>p\<close> is scheduled.
\<close>

definition skipped_block :: "event list" where
  "skipped_block = [EvPoll 1, EvTaskDone]"

definition unplayed_block :: "string \<Rightarrow> path \<Rightarrow> event list" where
  "unplayed_block t p = [EvPoll 1, EvMkTemp p, EvSynthesize t p, EvTaskDone]"

definition spoken_block :: "string \<Rightarrow> path \<Rightarrow> event list" where
  "spoken_block t p =
     [EvPoll 1, EvMkTemp p, EvSynthesize t p, EvPlay p, EvScheduleCleanup p 1, EvTaskDone]"

text \<open>The audio file that a block creates.\<close>

definition block_file :: "event list \<Rightarrow> path" where
  "block_file b = (case b of e # EvMkTemp p # es \<Rightarrow> p | _ \<Rightarrow> [])"

text \<open>The blocks that a queue entry admits, whatever the libraries do.\<close>

fun poll_block :: "poll \<Rightarrow> event list \<Rightarrow> bool" where
  "poll_block PollTimeout b = (b = [EvPoll 1])"
| "poll_block (PollItem None) b = (b = [EvPoll 1])"
| "poll_block (PollItem (Some t)) b =
     (if strip t = [] then b = skipped_block
      else b = skipped_block \<or> b = unplayed_block t (block_file b)
           \<or> b = spoken_block t (block_file b))"

text \<open>The block of a queue entry when audio files can be created and the synthesis
  works: every chunk that is not blank is synthesized and played.\<close>

fun played_block :: "poll \<Rightarrow> event list \<Rightarrow> bool" where
  "played_block PollTimeout b = (b = [EvPoll 1])"
| "played_block (PollItem None) b = (b = [EvPoll 1])"
| "played_block (PollItem (Some t)) b =
     (if strip t = [] then b = skipped_block else b = spoken_block t (block_file b))"

text \<open>The chunk of a queue entry that is to be spoken.\<close>

fun queued_text :: "poll \<Rightarrow> string list" where
  "queued_text (PollItem (Some t)) = (if strip t \<noteq> [] then [t] else [])"
| "queued_text _ = []"

section \<open>Concrete inputs\<close>

definition initial_world :: world where
  "initial_world = \<lparr>files = {}, temp_files = [], trace = []\<rparr>"

text \<open>A world in which the recording has been written to a temporary file.\<close>

definition recorded_world :: world where
  "recorded_world = \<lparr>files = {''/tmp/tmp0.wav''}, temp_files = [], trace = []\<rparr>"

text \<open>A world in which a recording lies in the working directory, as \<open>main.py\<close> names it.\<close>

definition kept_file_world :: world where
  "kept_file_world = \<lparr>files = {''input.wav''}, temp_files = [], trace = []\<rparr>"

text \<open>A stream callback that returns on every sentence.\<close>

definition returning_callback :: callback where
  "returning_callback = Some (\<lambda>sentence. None)"

text \<open>A service whose second token starts with a blank.\<close>

definition spaced_service :: "string \<Rightarrow> nat \<Rightarrow> reply" where
  "spaced_service prompt attempt = ([''Hi.'', '' Bye.''], EndOfStream)"

text \<open>A service that stalls after the first sentence at the first call and completes
  the same sentence at the second.\<close>

definition flaky_service :: "string \<Rightarrow> nat \<Rightarrow> reply" where
  "flaky_service prompt attempt =
     (if attempt = 0 then ([''Hi.'', '' By''], StreamHangs) else ([''Hi.''], EndOfStream))"

text \<open>An environment in which every library works; the temporary directory is \<open>/tmp\<close>.\<close>

definition demo_env :: env where
  "demo_env =
     \<lparr>tempdir = ''/tmp'',
      named_temporary_file = (\<lambda>suffix existing. Inr (''/tmp/tmp0'' @ suffix)),
      sd_rec = (\<lambda>duration. None),
      wav_write = (\<lambda>p. None),
      whisper_transcribe = (\<lambda>p. Inr [(''text'', '' What is light? '')]),
      os_remove = (\<lambda>p. None),
      llm = (\<lambda>prompt attempt. ([''Light is energy.''], EndOfStream)),
      edge_tts = (\<lambda>t. None),
      afplay = (\<lambda>p. Inr 0)\<rparr>"

text \<open>Variants of it: the service stalls at every call; the service answers with blanks
  only; the recording is silent.\<close>

definition stalling_env :: env where
  "stalling_env = demo_env\<lparr>llm := (\<lambda>prompt attempt. ([''Light''], StreamHangs))\<rparr>"

definition silent_env :: env where
  "silent_env = demo_env\<lparr>llm := (\<lambda>prompt attempt. ([''  '', '' ''], EndOfStream))\<rparr>"

definition blank_env :: env where
  "blank_env = demo_env\<lparr>whisper_transcribe := (\<lambda>p. Inr [(''text'', ''   '')])\<rparr>"

text \<open>The service refuses every call, the other libraries work; and a service that
  generates, as its answer, the sentence that \<open>ask_question_async\<close> returns then.\<close>

definition refusing_env :: env where
  "refusing_env = demo_env
     \<lparr>llm := (\<lambda>prompt attempt. ([], StreamRaises (Exception ''connection refused'')))\<rparr>"

definition parrot_env :: env where
  "parrot_env = demo_env
     \<lparr>llm := (\<lambda>prompt attempt.
               ([''I'm sorry, I encountered an error: connection refused''], EndOfStream))\<rparr>"

text \<open>A token stream that says the same sentence twice, and one of two different
  sentences.\<close>

definition repeating_service :: "string \<Rightarrow> reply" where
  "repeating_service prompt = ([''Yes.'', ''Yes.''], EndOfStream)"

definition distinct_service :: "string \<Rightarrow> reply" where
  "distinct_service prompt = ([''Yes.'', ''No.''], EndOfStream)"

text \<open>A queue of two chunks, a poll without result and a blank chunk between them.\<close>

definition demo_queue :: "poll list" where
  "demo_queue = [PollItem (Some ''One.''), PollTimeout, PollItem (Some '' ''), PollItem (Some ''Two.'')]"

section \<open>Facts about strings and the event trace\<close>

lemmas str_defs = strip_def lstrip_def rstrip_def isspace_def whitespace_def has_terminator_def

lemma attempts_list: "[0..<max_retries] = [0, 1, 2]"
  by (simp add: max_retries_def upt_rec)

lemma upt_3: "[0..<3] = [0, 1, 2]"
  by (simp add: upt_rec)

lemmas run_defs = process_question_async_def record_audio_async_def record_audio_sync_def
  transcribe_audio_async_def transcribe_sync_def remove_file_def startswith_def
  ask_question_async_def build_prompt_def max_context_length_def upt_3
  generate_response_def wait_for_def max_retries_def retry_delay_def
  speak_async_def generate_audio_async_def play_audio_async_def cleanup_temp_file_def
  emit_def initial_world_def str_defs Let_def

lemma chunks_emit_callback [simp]: "chunks (emit (EvCallback s) w) = chunks w @ [s]"
  by (simp add: chunks_def emit_def)

lemma chunks_emit_generate [simp]: "chunks (emit (EvGenerate p) w) = chunks w"
  by (simp add: chunks_def emit_def)

lemma chunks_trace_append: "chunks (w\<lparr>trace := trace w @ map EvCallback cs\<rparr>) = chunks w @ cs"
  by (induction cs rule: rev_induct) (simp_all add: chunks_def)

lemma service_calls_callbacks [simp]:
  "service_calls (w\<lparr>trace := trace w @ map EvCallback cs\<rparr>) = service_calls w"
  by (induction cs rule: rev_induct) (simp_all add: service_calls_def)

lemma service_calls_emit [simp]:
  "service_calls (emit e w) = service_calls w @ (if service_event e then [e] else [])"
  by (simp add: service_calls_def emit_def)

lemma synthesized_emit [simp]:
  "synthesized (emit e w) = synthesized w @ synthesize_arg e"
  by (simp add: synthesized_def emit_def)

lemma filter_dropWhile: "(\<And>x. Q x \<Longrightarrow> \<not> P x) \<Longrightarrow> filter P (dropWhile Q xs) = filter P xs"
  by (induction xs) auto

lemma filter_strip: "filter (\<lambda>c. \<not> isspace c) (strip s) = filter (\<lambda>c. \<not> isspace c) s"
proof -
  have l: "filter (\<lambda>c. \<not> isspace c) (dropWhile isspace xs) = filter (\<lambda>c. \<not> isspace c) xs" for xs
    by (rule filter_dropWhile) simp
  have "filter (\<lambda>c. \<not> isspace c) (rstrip xs) = filter (\<lambda>c. \<not> isspace c) xs" for xs
    unfolding rstrip_def by (simp add: l flip: rev_filter)
  then show ?thesis by (simp add: strip_def lstrip_def l)
qed

lemma filter_stripped_segments:
  "filter (\<lambda>c. \<not> isspace c) (concat (filter (\<lambda>s. s \<noteq> []) (map strip segs)))
     = filter (\<lambda>c. \<not> isspace c) (concat segs)"
  by (induction segs) (auto simp: filter_strip, metis filter.simps(1) filter_strip)

lemma strip_empty_iff: "strip s = [] \<longleftrightarrow> (\<forall>c\<in>set s. isspace c)"
proof -
  have "dropWhile isspace (rev (dropWhile isspace s)) = [] \<longleftrightarrow> dropWhile isspace s = []"
  proof
    assume a: "dropWhile isspace (rev (dropWhile isspace s)) = []"
    show "dropWhile isspace s = []"
    proof (rule ccontr)
      assume n: "dropWhile isspace s \<noteq> []"
      then have "\<not> isspace (hd (dropWhile isspace s))" by (rule hd_dropWhile)
      moreover from a have "\<forall>x\<in>set (rev (dropWhile isspace s)). isspace x"
        by (simp only: dropWhile_eq_Nil_conv)
      ultimately show False using n by (simp add: hd_in_set)
    qed
  next
    assume "dropWhile isspace s = []"
    then show "dropWhile isspace (rev (dropWhile isspace s)) = []"
      by (simp only: rev.simps dropWhile.simps)
  qed
  then show ?thesis
    by (simp add: strip_def rstrip_def lstrip_def dropWhile_eq_Nil_conv)
qed

lemma terminators_not_space:
  "\<not> isspace (CHR ''.'')" "\<not> isspace (CHR ''!'')" "\<not> isspace (CHR ''?'')"
  by (simp_all add: isspace_def whitespace_def)

lemma blank_no_terminator: "\<forall>c\<in>set s. isspace c \<Longrightarrow> \<not> has_terminator s"
  unfolding has_terminator_def using terminators_not_space by auto

section \<open>The streaming loop\<close>

text \<open>
  With a callback that returns, the loop runs to the end of the tokens; the text flushed
  so far and the buffer together are the text received so far, and every chunk is the
  stripped text of one flushed segment.
\<close>

lemma stream_loop_inv:
  "\<exists>segs buffer'. stream_loop (Some (\<lambda>s. None)) toks full buffer w
      = (Returns (full @ concat toks, buffer'),
         w\<lparr>trace := trace w @ map EvCallback (filter (\<lambda>s. s \<noteq> []) (map strip segs))\<rparr>)
     \<and> concat segs @ buffer' = buffer @ concat toks"
proof (induction toks arbitrary: full buffer w)
  case Nil
  show ?case by (rule exI[of _ "[]"]) simp
next
  case (Cons t toks)
  show ?case
  proof (cases "t = []")
    case True
    with Cons.IH[of full buffer w] show ?thesis by simp
  next
    case False
    show ?thesis
    proof (cases "has_terminator (buffer @ t)")
      case nt: False
      from Cons.IH[of "full @ t" "buffer @ t" w] False nt show ?thesis by simp
    next
      case ht: True
      let ?s = "strip (buffer @ t)"
      let ?w = "if ?s \<noteq> [] then emit (EvCallback ?s) w else w"
      from Cons.IH[of "full @ t" "[]" ?w] obtain segs b where
        eq: "stream_loop (Some (\<lambda>s. None)) toks (full @ t) [] ?w
           = (Returns ((full @ t) @ concat toks, b),
              ?w\<lparr>trace := trace ?w @ map EvCallback (filter (\<lambda>s. s \<noteq> []) (map strip segs))\<rparr>)"
        and cc: "concat segs @ b = [] @ concat toks" by blast
      have "stream_loop (Some (\<lambda>s. None)) (t # toks) full buffer w
           = (Returns (full @ concat (t # toks), b),
              w\<lparr>trace := trace w @ map EvCallback (filter (\<lambda>s. s \<noteq> []) (map strip ((buffer @ t) # segs)))\<rparr>)"
        using False ht eq by (cases "strip (buffer @ t) = []") (simp_all add: Let_def emit_def)
      moreover have "concat ((buffer @ t) # segs) @ b = buffer @ concat (t # toks)"
        using cc by simp
      ultimately show ?thesis by blast
    qed
  qed
qed

lemma generate_response_segments:
  assumes "service prompt = (toks, EndOfStream)"
  shows "\<exists>segs w'. generate_response service prompt (Some (\<lambda>s. None)) w
            = (Returns (strip (concat toks)), w')
         \<and> concat segs = concat toks
         \<and> chunks w' = chunks w @ filter (\<lambda>s. s \<noteq> []) (map strip segs)"
proof -
  let ?w1 = "emit (EvGenerate prompt) w"
  from stream_loop_inv[of toks "[]" "[]" ?w1] obtain segs b where
    eq: "stream_loop (Some (\<lambda>s. None)) toks [] [] ?w1
           = (Returns (concat toks, b),
              ?w1\<lparr>trace := trace ?w1 @ map EvCallback (filter (\<lambda>s. s \<noteq> []) (map strip segs))\<rparr>)"
    and cc: "concat segs @ b = concat toks" by auto
  let ?w2 = "?w1\<lparr>trace := trace ?w1 @ map EvCallback (filter (\<lambda>s. s \<noteq> []) (map strip segs))\<rparr>"
  let ?w3 = "if strip b \<noteq> [] then emit (EvCallback (strip b)) ?w2 else ?w2"
  have c2: "chunks ?w2 = chunks w @ filter (\<lambda>s. s \<noteq> []) (map strip segs)"
    by (simp add: chunks_trace_append)
  have "generate_response service prompt (Some (\<lambda>s. None)) w = (Returns (strip (concat toks)), ?w3)"
    using assms eq by (simp add: generate_response_def)
  moreover have "concat (segs @ [b]) = concat toks" using cc by simp
  moreover have "chunks ?w3 = chunks w @ filter (\<lambda>s. s \<noteq> []) (map strip (segs @ [b]))"
    using c2 by simp
  ultimately show ?thesis by blast
qed

text \<open>Without a callback nothing is flushed.\<close>

lemma stream_loop_no_callback:
  "stream_loop None toks full buffer w = (Returns (full @ concat toks, buffer @ concat toks), w)"
  by (induction toks arbitrary: full buffer) simp_all

text \<open>A stream of white space has no sentence end, so no callback is called on it.\<close>

lemma stream_loop_blank:
  "\<forall>c\<in>set (buffer @ concat toks). isspace c \<Longrightarrow>
     stream_loop cb toks full buffer w = (Returns (full @ concat toks, buffer @ concat toks), w)"
proof (induction toks arbitrary: full buffer)
  case Nil
  show ?case by simp
next
  case (Cons t toks)
  from Cons.prems have "\<not> has_terminator (buffer @ t)"
    by (intro blank_no_terminator) auto
  moreover from Cons.prems have "\<forall>c\<in>set ((buffer @ t) @ concat toks). isspace c" by auto
  moreover from Cons.prems have "\<forall>c\<in>set (buffer @ concat toks). isspace c" by auto
  ultimately show ?case using Cons.IH[of "buffer @ t" "full @ t"] Cons.IH[of buffer full]
    by (cases cb) (simp_all add: Let_def)
qed

lemma generate_response_blank:
  assumes "service prompt = (toks, EndOfStream)" and "strip (concat toks) = []"
  shows "generate_response service prompt cb w = (Returns [], emit (EvGenerate prompt) w)"
proof -
  from assms(2) have "\<forall>c\<in>set ([] @ concat toks). isspace c"
    by (simp add: strip_empty_iff)
  from stream_loop_blank[OF this] assms show ?thesis
    by (simp add: generate_response_def split: option.splits)
qed

text \<open>The loop itself never waits: it returns or a callback raises.\<close>

lemma stream_loop_not_hangs: "fst (stream_loop cb toks full buffer w) \<noteq> Hangs"
  by (induction toks arbitrary: full buffer w) (auto simp: Let_def split: option.splits)

lemma generate_response_stream_raises:
  assumes "snd (service prompt) = StreamRaises e"
  shows "\<exists>e' w'. generate_response service prompt cb w = (Raises e', w')"
proof -
  obtain toks where sp: "service prompt = (toks, StreamRaises e)"
    using assms by (cases "service prompt") simp
  obtain r w2 where sl: "stream_loop cb toks [] [] (emit (EvGenerate prompt) w) = (r, w2)"
    by (cases "stream_loop cb toks [] [] (emit (EvGenerate prompt) w)")
  with stream_loop_not_hangs[of cb toks "[]" "[]" "emit (EvGenerate prompt) w"]
  have "r \<noteq> Hangs" by simp
  then show ?thesis using sp sl
    by (cases r) (auto simp: generate_response_def)
qed

lemma generate_response_hangs:
  assumes "snd (service prompt) = StreamHangs" and "cb = None \<or> cb = Some (\<lambda>s. None)"
  shows "\<exists>w'. generate_response service prompt cb w = (Hangs, w')
              \<and> service_calls w' = service_calls w @ [EvGenerate prompt]"
proof -
  obtain toks where sp: "service prompt = (toks, StreamHangs)"
    using assms(1) by (cases "service prompt") simp
  from assms(2) show ?thesis
  proof
    assume "cb = None"
    then show ?thesis using sp
      by (simp add: generate_response_def stream_loop_no_callback)
  next
    assume cb: "cb = Some (\<lambda>s. None)"
    let ?w1 = "emit (EvGenerate prompt) w"
    from stream_loop_inv[of toks "[]" "[]" ?w1] obtain segs b where
      "stream_loop (Some (\<lambda>s. None)) toks [] [] ?w1
         = (Returns (concat toks, b),
            ?w1\<lparr>trace := trace ?w1 @ map EvCallback (filter (\<lambda>s. s \<noteq> []) (map strip segs))\<rparr>)"
      by auto
    then show ?thesis using sp cb
      by (simp add: generate_response_def)
  qed
qed

section \<open>The retry loop\<close>

lemma ask_attempts_timeouts:
  assumes hang: "\<forall>n<3. snd (service prompt n) = StreamHangs"
    and cb: "cb = None \<or> cb = Some (\<lambda>s. None)"
  shows "\<exists>w'. ask_attempts service prompt cb [0, 1, 2] w = (timeout_message, w')
           \<and> service_calls w' = service_calls w @
                [EvGenerate prompt, EvSleep 1, EvGenerate prompt, EvSleep 1, EvGenerate prompt]"
proof -
  from hang have h0: "snd (service prompt 0) = StreamHangs"
    and h1: "snd (service prompt 1) = StreamHangs"
    and h2: "snd (service prompt 2) = StreamHangs" by simp_all
  from generate_response_hangs[of "\<lambda>p. service p 0" prompt cb w] h0 cb obtain w1 where
    g0: "generate_response (\<lambda>p. service p 0) prompt cb w = (Hangs, w1)"
    and s0: "service_calls w1 = service_calls w @ [EvGenerate prompt]" by auto
  let ?w1 = "emit (EvSleep retry_delay) w1"
  from generate_response_hangs[of "\<lambda>p. service p 1" prompt cb ?w1] h1 cb obtain w2 where
    g1: "generate_response (\<lambda>p. service p 1) prompt cb ?w1 = (Hangs, w2)"
    and s1: "service_calls w2 = service_calls ?w1 @ [EvGenerate prompt]" by auto
  let ?w2 = "emit (EvSleep retry_delay) w2"
  from generate_response_hangs[of "\<lambda>p. service p 2" prompt cb ?w2] h2 cb obtain w3 where
    g2: "generate_response (\<lambda>p. service p 2) prompt cb ?w2 = (Hangs, w3)"
    and s2: "service_calls w3 = service_calls ?w2 @ [EvGenerate prompt]" by auto
  have "ask_attempts service prompt cb [0, 1, 2] w = (timeout_message, w3)"
    using g0 g1 g2 by (simp add: wait_for_def max_retries_def)
  moreover have "service_calls w3 = service_calls w @
                [EvGenerate prompt, EvSleep 1, EvGenerate prompt, EvSleep 1, EvGenerate prompt]"
    using s0 s1 s2 by (simp add: retry_delay_def)
  ultimately show ?thesis by blast
qed

lemma ask_attempts_blank:
  assumes "\<forall>n<3. snd (service prompt n) = EndOfStream
              \<and> strip (concat (fst (service prompt n))) = []"
  shows "ask_attempts service prompt cb [0, 1, 2] w
           = ([], w\<lparr>trace := trace w @ [EvGenerate prompt, EvGenerate prompt, EvGenerate prompt]\<rparr>)"
proof -
  have g: "generate_response (\<lambda>p. service p n) prompt cb w'
             = (Returns [], emit (EvGenerate prompt) w')" if "n < 3" for n w'
    using assms that
    by (intro generate_response_blank[where toks = "fst (service prompt n)"]) (auto simp: prod_eq_iff)
  show ?thesis
    by (simp add: g wait_for_def emit_def)
qed

lemma ask_attempts_retry:
  assumes "generate_response (\<lambda>p. service p n) prompt cb w = (Raises e, w1)" and "n < 2"
  shows "ask_attempts service prompt cb (n # rest) w
           = ask_attempts service prompt cb rest (emit (EvSleep retry_delay) w1)"
  using assms by (cases e) (simp_all add: wait_for_def max_retries_def)

lemma ask_attempts_last:
  assumes "generate_response (\<lambda>p. service p 2) prompt cb w = (Raises e, w1)"
  shows "ask_attempts service prompt cb [2] w
           = (case e of TimeoutError \<Rightarrow> timeout_message | Exception m \<Rightarrow> error_message m, w1)"
  using assms by (cases e) (simp_all add: wait_for_def max_retries_def)

lemma ask_attempts_all_raise:
  assumes "\<forall>n<3. \<exists>e. snd (service prompt n) = StreamRaises e"
  shows "fst (ask_attempts service prompt cb [0, 1, 2] w) = timeout_message
       \<or> (\<exists>m. fst (ask_attempts service prompt cb [0, 1, 2] w) = error_message m)"
proof -
  have g: "\<exists>e' w'. generate_response (\<lambda>p. service p n) prompt cb v = (Raises e', w')"
    if "n < 3" for n v
  proof -
    from assms that obtain e where "snd (service prompt n) = StreamRaises e" by blast
    then show ?thesis
      by (rule generate_response_stream_raises[where service = "\<lambda>p. service p n"])
  qed
  from g[of 0 w] obtain e0 w1 where
    g0: "generate_response (\<lambda>p. service p 0) prompt cb w = (Raises e0, w1)" by auto
  from g[of 1 "emit (EvSleep retry_delay) w1"] obtain e1 w2 where
    g1: "generate_response (\<lambda>p. service p 1) prompt cb (emit (EvSleep retry_delay) w1)
           = (Raises e1, w2)" by auto
  from g[of 2 "emit (EvSleep retry_delay) w2"] obtain e2 w3 where
    g2: "generate_response (\<lambda>p. service p 2) prompt cb (emit (EvSleep retry_delay) w2)
           = (Raises e2, w3)" by auto
  have "ask_attempts service prompt cb [0, 1, 2] w
          = (case e2 of TimeoutError \<Rightarrow> timeout_message | Exception m \<Rightarrow> error_message m, w3)"
    using ask_attempts_retry[where service = service and n = 0 and rest = "[1, 2]", OF g0]
      ask_attempts_retry[where service = service and n = 1 and rest = "[2]", OF g1]
      ask_attempts_last[where service = service, OF g2] by simp
  then show ?thesis by (cases e2) auto
qed

text \<open>The chunks of an attempt that times out have been handed over when the next
  attempt hands over its own.\<close>

lemma retry_repeats_chunks:
  "ask_question_async flaky_service ''What?'' (Some ''Ctx'') returning_callback initial_world
     = (Inr ''Hi.'',
        \<lparr>files = {}, temp_files = [],
         trace = [EvGenerate (prompt_head @ ''Ctx'' @ prompt_mid @ ''What?'' @ prompt_tail),
                  EvCallback ''Hi.'', EvSleep 1,
                  EvGenerate (prompt_head @ ''Ctx'' @ prompt_mid @ ''What?'' @ prompt_tail),
                  EvCallback ''Hi.'']\<rparr>)"
  by (simp add: run_defs flaky_service_def returning_callback_def)

section \<open>Recording, transcription and speech\<close>

lemma record_audio_async_generations:
  "record_audio_async env d fn w = (r, w') \<Longrightarrow> generations w' = generations w"
  by (auto simp: record_audio_async_def record_audio_sync_def remove_file_def generations_def
      emit_def Let_def split: option.splits sum.splits if_splits prod.splits bool.splits)

lemma transcribe_audio_async_generations:
  "transcribe_audio_async env f w = (t, w') \<Longrightarrow> generations w' = generations w"
  by (auto simp: transcribe_audio_async_def transcribe_sync_def remove_file_def generations_def
      emit_def Let_def split: option.splits sum.splits if_splits prod.splits)

text \<open>When the recording itself fails, \<open>record_audio_async\<close> returns \<open>None\<close> and the
  temporary file it has created stays on disk.\<close>

lemma record_failure_keeps_temp_file:
  "record_audio_async (demo_env\<lparr>sd_rec := (\<lambda>d. Some (Exception ''no input device''))\<rparr>)
       5 None initial_world
     = (Inr None, \<lparr>files = {''/tmp/tmp0.wav''}, temp_files = [],
                  trace = [EvMkTemp ''/tmp/tmp0.wav'', EvRecord 5]\<rparr>)"
  by (simp add: run_defs demo_env_def)

lemma speak_async_block:
  "\<exists>evs. trace (snd (speak_async env t 1 w)) = trace w @ evs
     \<and> (evs = [] \<or> (\<exists>p. evs = [EvMkTemp p, EvSynthesize t p])
          \<or> (\<exists>p. evs = [EvMkTemp p, EvSynthesize t p, EvPlay p, EvScheduleCleanup p 1]))"
  by (auto simp: speak_async_def generate_audio_async_def play_audio_async_def emit_def Let_def
      split: option.splits sum.splits prod.splits)

lemma speak_async_played:
  assumes "\<forall>fs. \<exists>p. named_temporary_file env ''.mp3'' fs = Inr p \<and> p \<noteq> []"
    and "\<forall>t. edge_tts env t = None"
    and "strip t \<noteq> []"
  shows "\<exists>p. trace (snd (speak_async env t 1 w))
             = trace w @ [EvMkTemp p, EvSynthesize t p, EvPlay p, EvScheduleCleanup p 1]"
proof -
  from assms(1) obtain p where "named_temporary_file env ''.mp3'' (files w) = Inr p" "p \<noteq> []"
    by blast
  moreover from assms(3) have "t \<noteq> []" by (auto simp: str_defs)
  ultimately show ?thesis using assms(2,3)
    by (auto simp: speak_async_def generate_audio_async_def play_audio_async_def emit_def Let_def
        split: option.splits sum.splits prod.splits)
qed

lemma speak_async_synthesized:
  assumes "0 < d" and "\<forall>fs. \<exists>p. named_temporary_file env ''.mp3'' fs = Inr p" and "strip t \<noteq> []"
  shows "synthesized (snd (speak_async env t d w)) = synthesized w @ [t]"
proof -
  from assms(2) obtain p where "named_temporary_file env ''.mp3'' (files w) = Inr p" by blast
  moreover from assms(3) have "t \<noteq> []" by (auto simp: str_defs)
  ultimately show ?thesis using assms(1,3)
    by (auto simp: speak_async_def generate_audio_async_def play_audio_async_def emit_def Let_def
        synthesized_def split: option.splits sum.splits prod.splits)
qed

lemma speak_streaming_blocks:
  assumes "list_all (\<lambda>x. x \<noteq> PollItem None) pre"
  shows "\<exists>w' blocks. speak_streaming_async env (pre @ PollItem None # rest) w = Some w'
           \<and> trace w' = trace w @ concat blocks @ [EvPoll 1]
           \<and> list_all2 poll_block pre blocks
           \<and> ((\<forall>fs. \<exists>p. named_temporary_file env ''.mp3'' fs = Inr p \<and> p \<noteq> [])
                 \<and> (\<forall>t. edge_tts env t = None)
               \<longrightarrow> list_all2 played_block pre blocks)"
  using assms
proof (induction pre arbitrary: w)
  case Nil
  show ?case by (simp add: emit_def poll_timeout_def)
next
  case (Cons x pre)
  let ?H = "(\<forall>fs. \<exists>p. named_temporary_file env ''.mp3'' fs = Inr p \<and> p \<noteq> [])
              \<and> (\<forall>t. edge_tts env t = None)"
  from Cons.prems have pre: "list_all (\<lambda>x. x \<noteq> PollItem None) pre" and x: "x \<noteq> PollItem None"
    by simp_all
  show ?case
  proof (cases x)
    case PollTimeout
    from Cons.IH[OF pre, of "emit (EvPoll poll_timeout) w"] obtain w' blocks where
      "speak_streaming_async env (pre @ PollItem None # rest) (emit (EvPoll poll_timeout) w) = Some w'"
      "trace w' = trace (emit (EvPoll poll_timeout) w) @ concat blocks @ [EvPoll 1]"
      "list_all2 poll_block pre blocks"
      "?H \<longrightarrow> list_all2 played_block pre blocks" by blast
    then have "speak_streaming_async env ((x # pre) @ PollItem None # rest) w = Some w'
        \<and> trace w' = trace w @ concat ([EvPoll 1] # blocks) @ [EvPoll 1]
        \<and> list_all2 poll_block (x # pre) ([EvPoll 1] # blocks)
        \<and> (?H \<longrightarrow> list_all2 played_block (x # pre) ([EvPoll 1] # blocks))"
      using PollTimeout by (simp add: emit_def poll_timeout_def)
    then show ?thesis by blast
  next
    case (PollItem item)
    with x obtain t where t: "x = PollItem (Some t)" by (cases item) auto
    let ?w1 = "emit (EvPoll poll_timeout) w"
    let ?w2 = "if strip t \<noteq> [] then snd (speak_async env t 1.0 ?w1) else ?w1"
    let ?w3 = "emit EvTaskDone ?w2"
    obtain evs where evs: "trace ?w2 = trace ?w1 @ evs"
      and shape: "evs = [] \<or> (\<exists>p. evs = [EvMkTemp p, EvSynthesize t p])
          \<or> (\<exists>p. evs = [EvMkTemp p, EvSynthesize t p, EvPlay p, EvScheduleCleanup p 1])"
      and blank: "strip t = [] \<longrightarrow> evs = []"
      using speak_async_block[of env t ?w1] by (cases "strip t = []") auto
    have played: "\<exists>p. evs = [EvMkTemp p, EvSynthesize t p, EvPlay p, EvScheduleCleanup p 1]"
      if "?H" and "strip t \<noteq> []"
    proof -
      from that speak_async_played[of env t ?w1] obtain p where
        "trace (snd (speak_async env t 1 ?w1))
           = trace ?w1 @ [EvMkTemp p, EvSynthesize t p, EvPlay p, EvScheduleCleanup p 1]"
        by blast
      with evs that(2) show ?thesis by auto
    qed
    from Cons.IH[OF pre, of ?w3] obtain w' blocks where
      r: "speak_streaming_async env (pre @ PollItem None # rest) ?w3 = Some w'"
      and tr: "trace w' = trace ?w3 @ concat blocks @ [EvPoll 1]"
      and bl: "list_all2 poll_block pre blocks"
      and pl: "?H \<longrightarrow> list_all2 played_block pre blocks" by blast
    let ?b = "EvPoll 1 # evs @ [EvTaskDone]"
    have "speak_streaming_async env ((x # pre) @ PollItem None # rest) w = Some w'"
      using t r by (simp add: Let_def)
    moreover have "trace w' = trace w @ concat (?b # blocks) @ [EvPoll 1]"
      using tr evs by (simp add: emit_def poll_timeout_def)
    moreover have "poll_block x ?b"
      using t shape blank
      by (auto simp: skipped_block_def unplayed_block_def spoken_block_def block_file_def)
    moreover have "?H \<longrightarrow> played_block x ?b"
      using t blank played
      by (auto simp: skipped_block_def spoken_block_def block_file_def)
    ultimately have "speak_streaming_async env ((x # pre) @ PollItem None # rest) w = Some w'
        \<and> trace w' = trace w @ concat (?b # blocks) @ [EvPoll 1]
        \<and> list_all2 poll_block (x # pre) (?b # blocks)
        \<and> (?H \<longrightarrow> list_all2 played_block (x # pre) (?b # blocks))"
      using bl pl by simp
    then show ?thesis by blast
  qed
qed

lemma speak_streaming_synthesized:
  assumes "list_all (\<lambda>x. x \<noteq> PollItem None) pre"
    and tmp: "\<forall>fs. \<exists>p. named_temporary_file env ''.mp3'' fs = Inr p"
    and "speak_streaming_async env (pre @ PollItem None # rest) w = Some w'"
  shows "synthesized w' = synthesized w @ concat (map queued_text pre)"
  using assms(1,3)
proof (induction pre arbitrary: w)
  case Nil
  then show ?case by auto
next
  case (Cons x pre)
  then have pre: "list_all (\<lambda>x. x \<noteq> PollItem None) pre" and x: "x \<noteq> PollItem None" by simp_all
  show ?case
  proof (cases x)
    case PollTimeout
    with Cons.prems(2) Cons.IH[OF pre, of "emit (EvPoll poll_timeout) w"] show ?thesis by simp
  next
    case (PollItem item)
    with x obtain t where t: "x = PollItem (Some t)" by (cases item) auto
    let ?w1 = "emit (EvPoll poll_timeout) w"
    let ?w2 = "if strip t \<noteq> [] then snd (speak_async env t 1.0 ?w1) else ?w1"
    let ?w3 = "emit EvTaskDone ?w2"
    have s2: "synthesized ?w2 = synthesized w @ queued_text x"
      using t speak_async_synthesized[of "1.0" env t ?w1] tmp by simp
    from Cons.prems(2) t have "speak_streaming_async env (pre @ PollItem None # rest) ?w3 = Some w'"
      by (simp add: Let_def)
    from Cons.IH[OF pre this] s2 show ?thesis by simp
  qed
qed

section \<open>The claims\<close>

subsection \<open>Sentence chunks\<close>

text \<open>
  C1, as stated, fails: every chunk is stripped before it is handed to the callback, so
  the blank between two sentences is in the answer and in no chunk.  For the tokens
  \<open>"Hi."\<close>, \<open>" Bye."\<close> the answer is \<open>"Hi. Bye."\<close> and the chunks make \<open>"Hi.Bye."\<close>.
\<close>

theorem chunks_not_exact_counterexample:
  "fst (ask_question_async spaced_service ''What?'' (Some ''Ctx'') returning_callback initial_world)
     = Inr ''Hi. Bye.''
   \<and> concat (chunks (snd (ask_question_async spaced_service ''What?'' (Some ''Ctx'')
                            returning_callback initial_world)))
     = ''Hi.Bye.''"
  by (simp add: ask_question_async_def build_prompt_def max_context_length_def attempts_list
      generate_response_def spaced_service_def returning_callback_def wait_for_def str_defs
      initial_world_def chunks_def emit_def Let_def)

text \<open>
  C1, amended: when the first attempt of \<open>ask_question_async\<close> reads its token stream to
  the end and the answer is not blank, the answer is the stripped concatenation of the
  tokens, and the chunks handed to a callback that returns are, in order, the non-empty
  stripped texts of contiguous segments that together are exactly the generated text:
  nothing but white space at the ends of a segment is missing from the chunks, and
  nothing is handed over twice.
\<close>

theorem chunks_cover_answer:
  assumes "build_prompt q (Some c) = Inr prompt"
    and "service prompt 0 = (toks, EndOfStream)"
    and "strip (concat toks) \<noteq> []"
  shows "\<exists>segs w'. ask_question_async service q (Some c) (Some (\<lambda>s. None)) w
            = (Inr (strip (concat toks)), w')
         \<and> concat segs = concat toks
         \<and> chunks w' = chunks w @ filter (\<lambda>s. s \<noteq> []) (map strip segs)
         \<and> filter (\<lambda>x. \<not> isspace x) (concat (chunks w'))
             = filter (\<lambda>x. \<not> isspace x) (concat (chunks w @ toks))"
proof -
  from generate_response_segments[of "\<lambda>p. service p 0" prompt toks w] assms(2)
  obtain segs w' where
    g: "generate_response (\<lambda>p. service p 0) prompt (Some (\<lambda>s. None)) w
          = (Returns (strip (concat toks)), w')"
    and cc: "concat segs = concat toks"
    and ch: "chunks w' = chunks w @ filter (\<lambda>s. s \<noteq> []) (map strip segs)" by blast
  have "ask_question_async service q (Some c) (Some (\<lambda>s. None)) w = (Inr (strip (concat toks)), w')"
    using assms(1,3) g by (simp add: ask_question_async_def attempts_list wait_for_def)
  moreover have "filter (\<lambda>x. \<not> isspace x) (concat (chunks w'))
             = filter (\<lambda>x. \<not> isspace x) (concat (chunks w @ toks))"
    using ch cc filter_stripped_segments[of segs] by simp
  ultimately show ?thesis using cc ch by blast
qed

theorem chunks_cover_answer_witness:
  "\<exists>segs w'. ask_question_async spaced_service ''What?'' (Some ''Ctx'') (Some (\<lambda>s. None)) initial_world
            = (Inr ''Hi. Bye.'', w')
         \<and> concat segs = ''Hi. Bye.''
         \<and> chunks w' = filter (\<lambda>s. s \<noteq> []) (map strip segs)
         \<and> filter (\<lambda>x. \<not> isspace x) (concat (chunks w')) = ''Hi.Bye.''"
proof -
  have 1: "build_prompt ''What?'' (Some ''Ctx'')
             = Inr (prompt_head @ ''Ctx'' @ prompt_mid @ ''What?'' @ prompt_tail)"
    by (simp add: build_prompt_def max_context_length_def)
  have 2: "spaced_service (prompt_head @ ''Ctx'' @ prompt_mid @ ''What?'' @ prompt_tail) 0
             = ([''Hi.'', '' Bye.''], EndOfStream)"
    by (simp add: spaced_service_def)
  have 3: "strip (concat [''Hi.'', '' Bye.'']) \<noteq> []"
    by (simp add: str_defs)
  from chunks_cover_answer[where service = spaced_service and toks = "[''Hi.'', '' Bye.'']"
      and w = initial_world, OF 1 2 3]
  show ?thesis
    by (simp add: str_defs initial_world_def chunks_def)
qed

subsection \<open>Timeouts\<close>

text \<open>
  C2: the claim is that after three timeouts the message is surfaced and nothing is
  narrated.  The docstring of \<open>ask_question_async\<close> promises the empty string on failure,
  and \<open>process_question_async\<close> skips the narration on an empty answer, as it does when
  every answer is empty.  At a service that stalls at every call the code makes the three
  calls with a sleep of one second between them, returns the message as if it were the
  answer, speaks it, and reports success with no error.
\<close>

theorem timeout_reported_as_success:
  "fst (process_question_async stalling_env (Some ''Optics.'') 5 initial_world)
     = \<lparr>success = True, question = ''What is light?'',
        answer = ''I'm sorry, the request timed out. Please try again.'',
        timing = [''recording'', ''transcription'', ''gemma'', ''speech'', ''total''],
        errors = []\<rparr>
   \<and> service_calls (snd (process_question_async stalling_env (Some ''Optics.'') 5 initial_world))
     = [EvGenerate (prompt_head @ ''Optics.'' @ prompt_mid @ ''What is light?'' @ prompt_tail),
        EvSleep 1,
        EvGenerate (prompt_head @ ''Optics.'' @ prompt_mid @ ''What is light?'' @ prompt_tail),
        EvSleep 1,
        EvGenerate (prompt_head @ ''Optics.'' @ prompt_mid @ ''What is light?'' @ prompt_tail)]
   \<and> synthesized (snd (process_question_async stalling_env (Some ''Optics.'') 5 initial_world))
     = [''I'm sorry, the request timed out. Please try again.'']"
  by (simp add: run_defs stalling_env_def demo_env_def timeout_message_def service_calls_def
      synthesized_def)

subsection \<open>The prompt\<close>

text \<open>
  C3: \<open>_build_prompt\<close> embeds a context of at most 4000 characters unchanged; of a longer
  one it embeds the first 4000 characters, followed by the marker \<open>"..."\<close>.
\<close>

theorem prompt_context_bounded:
  "build_prompt q (Some c) =
     Inr (prompt_head @ (if length c > 4000 then take 4000 c @ ''...'' else c)
          @ prompt_mid @ q @ prompt_tail)
   \<and> (length c > 4000 \<longrightarrow> length (take 4000 c) = 4000)"
  by (simp add: build_prompt_def max_context_length_def)

theorem prompt_context_bounded_witness:
  "length (replicate 4001 (CHR ''a'')) > 4000
   \<and> build_prompt ''Why?'' (Some (replicate 4001 (CHR ''a''))) =
       Inr (prompt_head @ replicate 4000 (CHR ''a'') @ ''...'' @ prompt_mid @ ''Why?'' @ prompt_tail)
   \<and> build_prompt ''Why?'' (Some ''Light.'') =
       Inr (prompt_head @ ''Light.'' @ prompt_mid @ ''Why?'' @ prompt_tail)"
  using prompt_context_bounded [of "''Why?''" "replicate 4001 (CHR ''a'')"]
        prompt_context_bounded [of "''Why?''" "''Light.''"]
  by simp

subsection \<open>The recorded file\<close>

text \<open>
  C4, as stated, fails: a recording outside the temporary directory, such as the
  \<open>input.wav\<close> of \<open>main.py\<close>, is transcribed and left in place; no removal is attempted.
\<close>

theorem input_outside_tempdir_kept_counterexample:
  "fst (transcribe_audio_async demo_env ''input.wav'' kept_file_world) = ''What is light?''
   \<and> removals (snd (transcribe_audio_async demo_env ''input.wav'' kept_file_world)) = []
   \<and> ''input.wav'' \<in> files (snd (transcribe_audio_async demo_env ''input.wav'' kept_file_world))"
  by (simp add: run_defs removals_def demo_env_def kept_file_world_def)

text \<open>
  C4, amended: whatever the transcription yields, \<open>transcribe_audio_async\<close> attempts to
  remove the input file exactly when the file exists and its path starts with the
  temporary directory, and the file is gone afterwards unless \<open>os.remove\<close> raises; any
  other input file is left as it is.
\<close>

theorem temp_input_removed:
  "removals (snd (transcribe_audio_async env f w))
     = removals w @ (if f \<in> files w \<and> startswith f (tempdir env) then [f] else [])
   \<and> files (snd (transcribe_audio_async env f w))
     = (if f \<in> files w \<and> startswith f (tempdir env) \<and> os_remove env f = None
        then files w - {f} else files w)"
  by (simp add: transcribe_audio_async_def transcribe_sync_def remove_file_def removals_def
      emit_def Let_def split: option.splits sum.splits prod.splits)

theorem temp_input_removed_witness:
  "removals (snd (transcribe_audio_async demo_env ''/tmp/tmp0.wav'' recorded_world))
     = [''/tmp/tmp0.wav'']
   \<and> files (snd (transcribe_audio_async demo_env ''/tmp/tmp0.wav'' recorded_world)) = {}"
  using temp_input_removed[of demo_env "''/tmp/tmp0.wav''" recorded_world]
  by (simp add: recorded_world_def demo_env_def startswith_def removals_def)

subsection \<open>An empty question\<close>

text \<open>
  C5: when the recording succeeds and the transcription is empty or blank,
  \<open>process_question_async\<close> returns \<open>success = False\<close> with the single error
  \<open>"No valid question transcribed"\<close>, stops in the world the transcription left, and the
  language-model service has not been called.
\<close>

theorem blank_question_aborts:
  assumes rec: "record_audio_async env d None w0 = (Inr (Some f), w1)" "f \<noteq> []"
    and tr: "transcribe_audio_async env f w1 = (q, w2)"
    and blank: "strip q = []"
  shows "process_question_async env ctx d w0
           = (\<lparr>success = False, question = q, answer = [],
               timing = [''recording'', ''transcription''],
               errors = [''No valid question transcribed'']\<rparr>, w2)
        \<and> generations w2 = generations w0"
proof -
  have "process_question_async env ctx d w0
           = (\<lparr>success = False, question = q, answer = [],
               timing = [''recording'', ''transcription''],
               errors = [''No valid question transcribed'']\<rparr>, w2)"
    using rec tr blank by (simp add: process_question_async_def Let_def)
  moreover have "generations w2 = generations w0"
    using record_audio_async_generations[OF rec(1)] transcribe_audio_async_generations[OF tr]
    by simp
  ultimately show ?thesis by simp
qed

theorem blank_question_aborts_witness:
  "fst (process_question_async blank_env (Some ''Optics.'') 5 initial_world)
     = \<lparr>success = False, question = [], answer = [],
        timing = [''recording'', ''transcription''],
        errors = [''No valid question transcribed'']\<rparr>
   \<and> generations (snd (process_question_async blank_env (Some ''Optics.'') 5 initial_world)) = []"
proof -
  let ?w1 = "recorded_world\<lparr>trace :=
          [EvMkTemp ''/tmp/tmp0.wav'', EvRecord 5, EvWrite ''/tmp/tmp0.wav'']\<rparr>"
  let ?w2 = "\<lparr>files = {}, temp_files = [],
              trace = [EvMkTemp ''/tmp/tmp0.wav'', EvRecord 5, EvWrite ''/tmp/tmp0.wav'',
                       EvTranscribe ''/tmp/tmp0.wav'', EvRemove ''/tmp/tmp0.wav'']\<rparr>"
  have rec: "record_audio_async blank_env 5 None initial_world = (Inr (Some ''/tmp/tmp0.wav''), ?w1)"
    by (simp add: run_defs blank_env_def demo_env_def recorded_world_def)
  have ne: "''/tmp/tmp0.wav'' \<noteq> []" by simp
  have tr: "transcribe_audio_async blank_env ''/tmp/tmp0.wav'' ?w1 = ([], ?w2)"
    by (simp add: run_defs blank_env_def demo_env_def recorded_world_def)
  have blank: "strip [] = []" by (simp add: str_defs)
  from blank_question_aborts[where env = blank_env and ctx = "Some ''Optics.''", OF rec ne tr blank]
  show ?thesis
    by (simp add: generations_def initial_world_def)
qed

subsection \<open>Blank text\<close>

text \<open>
  C6: on an empty or blank text \<open>speak_async\<close> returns \<open>False\<close> and leaves the world as it
  is: no file is created, nothing is synthesized, played or scheduled.
\<close>

theorem blank_text_not_spoken:
  "strip t = [] \<Longrightarrow> speak_async env t cleanup_delay w = (False, w)"
  by (simp add: speak_async_def)

theorem blank_text_not_spoken_witness:
  "speak_async demo_env ''   '' 2 initial_world = (False, initial_world)
   \<and> speak_async demo_env [] 2 initial_world = (False, initial_world)"
proof -
  have 1: "strip ''   '' = []" by (simp add: str_defs)
  have 2: "strip [] = []" by (simp add: str_defs)
  from blank_text_not_spoken[OF 1] blank_text_not_spoken[OF 2] show ?thesis by simp
qed

subsection \<open>Streaming speech\<close>

text \<open>
  C7: when the queue yields, after chunks and empty polls, the end signal,
  \<open>speak_streaming_async\<close> returns at the end signal and reads nothing after it.  Its
  events are one block per queue entry, in the order of the queue, and the poll of the
  end signal; each poll waits for one second.  The block of a chunk holds the events of
  that chunk only, between the poll that yielded it and its \<open>task_done\<close>: its own audio
  file is created, the chunk is synthesized into that file and that file is played
  before the next poll.  When audio files can be created and the synthesis works,
  every chunk that is not blank is synthesized and played, each before the next is read.
\<close>

theorem streaming_speech_in_order:
  assumes "list_all (\<lambda>x. x \<noteq> PollItem None) pre"
  shows "\<exists>w' blocks. speak_streaming_async env (pre @ PollItem None # rest) w = Some w'
           \<and> trace w' = trace w @ concat blocks @ [EvPoll 1]
           \<and> list_all2 poll_block pre blocks
           \<and> ((\<forall>fs. \<exists>p. named_temporary_file env ''.mp3'' fs = Inr p)
                 \<longrightarrow> synthesized w' = synthesized w @ concat (map queued_text pre))
           \<and> ((\<forall>fs. \<exists>p. named_temporary_file env ''.mp3'' fs = Inr p \<and> p \<noteq> [])
                 \<and> (\<forall>t. edge_tts env t = None)
               \<longrightarrow> list_all2 played_block pre blocks)"
proof -
  from speak_streaming_blocks[OF assms, of env rest w] obtain w' blocks where
    r: "speak_streaming_async env (pre @ PollItem None # rest) w = Some w'"
    and t: "trace w' = trace w @ concat blocks @ [EvPoll 1]"
    and b: "list_all2 poll_block pre blocks"
    and p: "(\<forall>fs. \<exists>p. named_temporary_file env ''.mp3'' fs = Inr p \<and> p \<noteq> [])
                 \<and> (\<forall>t. edge_tts env t = None)
               \<longrightarrow> list_all2 played_block pre blocks" by blast
  have "(\<forall>fs. \<exists>p. named_temporary_file env ''.mp3'' fs = Inr p)
          \<longrightarrow> synthesized w' = synthesized w @ concat (map queued_text pre)"
    using speak_streaming_synthesized[OF assms _ r] by blast
  with r t b p show ?thesis by blast
qed

theorem streaming_speech_in_order_witness:
  "speak_streaming_async demo_env
       (demo_queue @ PollItem None # [PollItem (Some ''Never.'')]) initial_world
     = Some \<lparr>files = {''/tmp/tmp0.mp3''}, temp_files = [''/tmp/tmp0.mp3'', ''/tmp/tmp0.mp3''],
             trace = spoken_block ''One.'' ''/tmp/tmp0.mp3'' @ [EvPoll 1] @ skipped_block
                       @ spoken_block ''Two.'' ''/tmp/tmp0.mp3'' @ [EvPoll 1]\<rparr>
   \<and> (\<exists>w' blocks. speak_streaming_async demo_env
          (demo_queue @ PollItem None # [PollItem (Some ''Never.'')]) initial_world = Some w'
        \<and> trace w' = concat blocks @ [EvPoll 1]
        \<and> list_all2 poll_block demo_queue blocks
        \<and> list_all2 played_block demo_queue blocks
        \<and> synthesized w' = [''One.'', ''Two.''])"
proof -
  have 1: "list_all (\<lambda>x. x \<noteq> PollItem None) demo_queue"
    by (simp add: demo_queue_def)
  have 2: "\<forall>fs. \<exists>p. named_temporary_file demo_env ''.mp3'' fs = Inr p"
    by (simp add: demo_env_def)
  have 3: "concat (map queued_text demo_queue) = [''One.'', ''Two.'']"
    by (simp add: demo_queue_def str_defs)
  have 4: "(\<forall>fs. \<exists>p. named_temporary_file demo_env ''.mp3'' fs = Inr p \<and> p \<noteq> [])
             \<and> (\<forall>t. edge_tts demo_env t = None)"
    by (simp add: demo_env_def)
  have run: "speak_streaming_async demo_env
       (demo_queue @ PollItem None # [PollItem (Some ''Never.'')]) initial_world
     = Some \<lparr>files = {''/tmp/tmp0.mp3''}, temp_files = [''/tmp/tmp0.mp3'', ''/tmp/tmp0.mp3''],
             trace = spoken_block ''One.'' ''/tmp/tmp0.mp3'' @ [EvPoll 1] @ skipped_block
                       @ spoken_block ''Two.'' ''/tmp/tmp0.mp3'' @ [EvPoll 1]\<rparr>"
    by (simp add: demo_queue_def run_defs demo_env_def poll_timeout_def spoken_block_def
        skipped_block_def)
  from streaming_speech_in_order[OF 1, of demo_env "[PollItem (Some ''Never.'')]" initial_world]
    2 3 4
  have "\<exists>w' blocks. speak_streaming_async demo_env
          (demo_queue @ PollItem None # [PollItem (Some ''Never.'')]) initial_world = Some w'
        \<and> trace w' = concat blocks @ [EvPoll 1]
        \<and> list_all2 poll_block demo_queue blocks
        \<and> list_all2 played_block demo_queue blocks
        \<and> synthesized w' = [''One.'', ''Two.'']"
    by (simp add: initial_world_def synthesized_def) blast
  with run show ?thesis by blast
qed

subsection \<open>Failures of the libraries\<close>

text \<open>
  What holds of the failures of the libraries: a failing speech recognition gives the
  empty text; a failing creation of the audio file, synthesis or playback gives \<open>False\<close>;
  when the service raises at each of the three calls, \<open>ask_question_async\<close> returns one
  of its two messages.
\<close>

lemma library_failures_caught:
  "(whisper_transcribe env f = Inl e \<longrightarrow> fst (transcribe_audio_async env f w) = [])
   \<and> (named_temporary_file env ''.mp3'' (files w) = Inl e \<longrightarrow> fst (speak_async env t d w) = False)
   \<and> (edge_tts env t = Some e \<longrightarrow> fst (speak_async env t d w) = False)
   \<and> (named_temporary_file env ''.mp3'' (files w) = Inr p \<and> afplay env p = Inl e
        \<longrightarrow> fst (speak_async env t d w) = False)
   \<and> ((\<forall>prompt. \<forall>n<3. \<exists>e. snd (llm env prompt n) = StreamRaises e)
        \<longrightarrow> fst (ask_question_async (llm env) q (Some c) cb w) = Inr timeout_message
          \<or> (\<exists>m. fst (ask_question_async (llm env) q (Some c) cb w) = Inr (error_message m)))"
proof -
  have 1: "whisper_transcribe env f = Inl e \<longrightarrow> fst (transcribe_audio_async env f w) = []"
    by (simp add: transcribe_audio_async_def transcribe_sync_def Let_def split: prod.splits)
  have 2: "named_temporary_file env ''.mp3'' (files w) = Inl e \<longrightarrow> fst (speak_async env t d w) = False"
    by (simp add: speak_async_def generate_audio_async_def)
  have 3: "edge_tts env t = Some e \<longrightarrow> fst (speak_async env t d w) = False"
    by (simp add: speak_async_def generate_audio_async_def Let_def split: sum.splits)
  have 4: "named_temporary_file env ''.mp3'' (files w) = Inr p \<and> afplay env p = Inl e
        \<longrightarrow> fst (speak_async env t d w) = False"
    by (simp add: speak_async_def generate_audio_async_def play_audio_async_def emit_def Let_def
        split: option.splits)
  obtain prompt where bp: "build_prompt q (Some c) = Inr prompt"
    by (simp add: build_prompt_def)
  have 6: "(\<forall>prompt. \<forall>n<3. \<exists>e. snd (llm env prompt n) = StreamRaises e)
        \<longrightarrow> fst (ask_question_async (llm env) q (Some c) cb w) = Inr timeout_message
          \<or> (\<exists>m. fst (ask_question_async (llm env) q (Some c) cb w) = Inr (error_message m))"
  proof
    assume "\<forall>prompt. \<forall>n<3. \<exists>e. snd (llm env prompt n) = StreamRaises e"
    then have "\<forall>n<3. \<exists>e. snd (llm env prompt n) = StreamRaises e" by blast
    from ask_attempts_all_raise[where service = "llm env" and prompt = prompt and cb = cb
        and w = w, OF this]
    have r: "fst (ask_attempts (llm env) prompt cb [0, 1, 2] w) = timeout_message
       \<or> (\<exists>m. fst (ask_attempts (llm env) prompt cb [0, 1, 2] w) = error_message m)" .
    have "fst (ask_question_async (llm env) q (Some c) cb w)
            = Inr (fst (ask_attempts (llm env) prompt cb [0, 1, 2] w))"
      using bp by (simp add: ask_question_async_def attempts_list split: prod.splits
          del: ask_attempts.simps)
    with r show "fst (ask_question_async (llm env) q (Some c) cb w) = Inr timeout_message
          \<or> (\<exists>m. fst (ask_question_async (llm env) q (Some c) cb w) = Inr (error_message m))"
      by (simp del: ask_attempts.simps)
  qed
  from 1 2 3 4 6 show ?thesis by blast
qed

text \<open>
  C8: the claim is that every failure of a library ends as a typed failure or an empty
  result.  For \<open>ask_question_async\<close> the docstring says so as well: the empty string on
  failure.  At a service that refuses every call the code returns a sentence instead,
  the very value that a service generating this sentence as its answer gives;
  \<open>process_question_async\<close> stores it as the answer, speaks it, and reports success with
  no error.
\<close>

theorem error_answer_reported_as_success:
  "fst (ask_question_async (llm refusing_env) ''What is light?'' (Some ''Optics.'') None
          initial_world)
     = Inr ''I'm sorry, I encountered an error: connection refused''
   \<and> fst (ask_question_async (llm parrot_env) ''What is light?'' (Some ''Optics.'') None
          initial_world)
     = Inr ''I'm sorry, I encountered an error: connection refused''
   \<and> fst (process_question_async refusing_env (Some ''Optics.'') 5 initial_world)
     = \<lparr>success = True, question = ''What is light?'',
        answer = ''I'm sorry, I encountered an error: connection refused'',
        timing = [''recording'', ''transcription'', ''gemma'', ''speech'', ''total''],
        errors = []\<rparr>
   \<and> synthesized (snd (process_question_async refusing_env (Some ''Optics.'') 5 initial_world))
     = [''I'm sorry, I encountered an error: connection refused'']"
  by (simp add: run_defs refusing_env_def parrot_env_def demo_env_def error_message_def
      synthesized_def)

subsection \<open>The legacy client\<close>

text \<open>
  C9: the token stream \<open>"Yes."\<close>, \<open>"Yes."\<close> repeats a sentence.  Of it the legacy
  \<open>ask_gemma\<close> speaks \<open>"Yes."\<close> and then the empty string, and returns \<open>"Yes."\<close>: the
  \<open>replace\<close> deletes from the second sentence what was spoken before.  The loop of
  \<open>_generate_response\<close>, which keeps only the unflushed text, hands over both sentences
  and returns all of the text.  Of two different sentences the legacy loop loses nothing.
\<close>

theorem legacy_replace_loses_repeated_text:
  "fst (repeating_service p) = [''Yes.'', ''Yes.'']
   \<and> fst (ask_gemma repeating_service q c initial_world) = Returns ''Yes.''
   \<and> chunks (snd (ask_gemma repeating_service q c initial_world)) = [''Yes.'', '''']
   \<and> fst (generate_response repeating_service p returning_callback initial_world)
       = Returns ''Yes.Yes.''
   \<and> chunks (snd (generate_response repeating_service p returning_callback initial_world))
       = [''Yes.'', ''Yes.'']
   \<and> fst (ask_gemma distinct_service q c initial_world) = Returns ''Yes.No.''
   \<and> chunks (snd (ask_gemma distinct_service q c initial_world)) = [''Yes.'', ''No.'']"
  by (simp add: ask_gemma_def generate_response_def repeating_service_def distinct_service_def
      returning_callback_def str_defs chunks_def initial_world_def replace_by_empty.simps
      startswith_def emit_def Let_def)

subsection \<open>Empty answers\<close>

text \<open>
  C10: if each of the three calls of the service ends without exception and in time with
  a blank text, \<open>ask_question_async\<close> calls the service three times, without a sleep
  and without a callback call, and returns the empty string; the pipeline records
  \<open>"No answer received from Gemma"\<close>, returns \<open>success = False\<close> and does not speak.
\<close>

theorem empty_answers_exhaust_attempts:
  assumes bp: "build_prompt q (Some c) = Inr prompt"
    and blank: "\<forall>n<3. snd (llm env prompt n) = EndOfStream
                  \<and> strip (concat (fst (llm env prompt n))) = []"
    and rec: "record_audio_async env d None w0 = (Inr (Some f), w1)" "f \<noteq> []"
    and tr: "transcribe_audio_async env f w1 = (q, w2)" "3 \<le> length (strip q)"
  shows "ask_question_async (llm env) q (Some c) cb w
           = (Inr [], w\<lparr>trace := trace w @ [EvGenerate prompt, EvGenerate prompt, EvGenerate prompt]\<rparr>)
       \<and> process_question_async env (Some c) d w0
           = (\<lparr>success = False, question = q, answer = [],
               timing = [''recording'', ''transcription'', ''gemma''],
               errors = [''No answer received from Gemma'']\<rparr>,
              w2\<lparr>trace := trace w2 @ [EvGenerate prompt, EvGenerate prompt, EvGenerate prompt]\<rparr>)"
proof -
  have a: "ask_question_async (llm env) q (Some c) cb' w'
           = (Inr [], w'\<lparr>trace := trace w' @ [EvGenerate prompt, EvGenerate prompt, EvGenerate prompt]\<rparr>)"
    for cb' w'
    using bp ask_attempts_blank[where service = "llm env" and prompt = prompt, OF blank]
    by (simp add: ask_question_async_def attempts_list)
  from tr(2) have qne: "q \<noteq> []" by (auto simp: str_defs)
  show ?thesis
    using rec tr qne a by (simp add: process_question_async_def Let_def)
qed

theorem empty_answers_exhaust_attempts_witness:
  "ask_question_async (llm silent_env) ''What is light?'' (Some ''Optics.'') None initial_world
     = (Inr [], initial_world\<lparr>trace :=
          [EvGenerate (prompt_head @ ''Optics.'' @ prompt_mid @ ''What is light?'' @ prompt_tail),
           EvGenerate (prompt_head @ ''Optics.'' @ prompt_mid @ ''What is light?'' @ prompt_tail),
           EvGenerate (prompt_head @ ''Optics.'' @ prompt_mid @ ''What is light?'' @ prompt_tail)]\<rparr>)
   \<and> fst (process_question_async silent_env (Some ''Optics.'') 5 initial_world)
     = \<lparr>success = False, question = ''What is light?'', answer = [],
        timing = [''recording'', ''transcription'', ''gemma''],
        errors = [''No answer received from Gemma'']\<rparr>"
proof -
  let ?p = "prompt_head @ ''Optics.'' @ prompt_mid @ ''What is light?'' @ prompt_tail"
  let ?w1 = "recorded_world\<lparr>trace :=
          [EvMkTemp ''/tmp/tmp0.wav'', EvRecord 5, EvWrite ''/tmp/tmp0.wav'']\<rparr>"
  let ?w2 = "\<lparr>files = {}, temp_files = [],
              trace = [EvMkTemp ''/tmp/tmp0.wav'', EvRecord 5, EvWrite ''/tmp/tmp0.wav'',
                       EvTranscribe ''/tmp/tmp0.wav'', EvRemove ''/tmp/tmp0.wav'']\<rparr>"
  have bp: "build_prompt ''What is light?'' (Some ''Optics.'') = Inr ?p"
    by (simp add: build_prompt_def max_context_length_def)
  have blank: "\<forall>n<3. snd (llm silent_env ?p n) = EndOfStream
                  \<and> strip (concat (fst (llm silent_env ?p n))) = []"
    by (simp add: silent_env_def demo_env_def str_defs)
  have rec: "record_audio_async silent_env 5 None initial_world = (Inr (Some ''/tmp/tmp0.wav''), ?w1)"
    by (simp add: run_defs silent_env_def demo_env_def recorded_world_def)
  have ne: "''/tmp/tmp0.wav'' \<noteq> []" by simp
  have tr: "transcribe_audio_async silent_env ''/tmp/tmp0.wav'' ?w1 = (''What is light?'', ?w2)"
    by (simp add: run_defs silent_env_def demo_env_def recorded_world_def)
  have len: "3 \<le> length (strip ''What is light?'')"
    by (simp add: str_defs)
  from empty_answers_exhaust_attempts[where env = silent_env and cb = None
        and w = initial_world, OF bp blank rec ne tr len]
  show ?thesis
    by (simp add: initial_world_def)
qed

end
